theory Spec2Isabelle
  imports Main "HOL-Library.Sublist" "HOL-Library.AList"
begin

section \<open>Strings and paths\<close>

text \<open>
  The server (\<^verbatim>\<open>src/index.ts\<close>) handles paths and messages as JavaScript strings. A string is
  modelled here as the list of bytes of its UTF-8 form, so the development covers
  well-formed text (no unpaired surrogates); on such text the prefix test on bytes and the
  one on UTF-16 code units agree. Paths follow the POSIX flavour of the \<^verbatim>\<open>path\<close> module:
  the separator is the slash.
\<close>

definition sep :: char where
  "sep = CHR ''/''"

definition startsWith :: "string \<Rightarrow> string \<Rightarrow> bool" where
  \<comment> \<open>\<^verbatim>\<open>s.startsWith(search)\<close>\<close>
  "startsWith s search = prefix search s"

fun join :: "string \<Rightarrow> string list \<Rightarrow> string" where
  "join separator [] = []"
| "join separator [x] = x"
| "join separator (x # y # ys) = x @ separator @ join separator (y # ys)"

fun split_sep :: "string \<Rightarrow> string list" where
  \<comment> \<open>the pieces of a path between separators, empty pieces included\<close>
  "split_sep [] = [[]]"
| "split_sep (c # cs) =
     (if c = sep then [] # split_sep cs
      else (case split_sep cs of
              [] \<Rightarrow> [[c]]
            | s # ss \<Rightarrow> (c # s) # ss))"

subsection \<open>\<^verbatim>\<open>path.resolve\<close> and \<^verbatim>\<open>path.dirname\<close>\<close>

text \<open>
  \<^verbatim>\<open>path.resolve\<close> and \<^verbatim>\<open>path.dirname\<close> belong to the Node.js runtime, not to the
  repository. They are modelled after the POSIX implementation of Node.js
  (\<^verbatim>\<open>lib/path.js\<close>): \<^verbatim>\<open>normalizeString\<close> walks the path piece by piece, drops empty
  pieces and \<^verbatim>\<open>.\<close>, and lets \<^verbatim>\<open>..\<close> remove the piece before it; above the root \<^verbatim>\<open>..\<close>
  is dropped when the path is absolute and kept otherwise.
\<close>

definition normalizeStep :: "bool \<Rightarrow> string list \<Rightarrow> string \<Rightarrow> string list" where
  "normalizeStep allowAboveRoot res seg =
     (if seg = [] \<or> seg = ''.'' then res
      else if seg = ''..'' then
        (if res \<noteq> [] \<and> last res \<noteq> ''..'' then butlast res
         else if allowAboveRoot then res @ [''..'']
         else res)
      else res @ [seg])"

definition normalizeString :: "string \<Rightarrow> bool \<Rightarrow> string" where
  "normalizeString path allowAboveRoot =
     join [sep] (foldl (normalizeStep allowAboveRoot) [] (split_sep path))"

definition resolveStep :: "string \<Rightarrow> string \<times> bool \<Rightarrow> string \<times> bool" where
  \<comment> \<open>one round of the loop of \<^verbatim>\<open>resolve\<close>, which runs from the last argument back to the
      working directory and stops as soon as the path built so far is absolute\<close>
  "resolveStep path st =
     (case st of (resolvedPath, resolvedAbsolute) \<Rightarrow>
        if resolvedAbsolute then st
        else if path = [] then st
        else (path @ [sep] @ resolvedPath, hd path = sep))"

definition resolve :: "string \<Rightarrow> string \<Rightarrow> string" where
  \<comment> \<open>\<^verbatim>\<open>path.resolve(p)\<close> in a process whose \<^verbatim>\<open>process.cwd()\<close> is \<open>cwd\<close>\<close>
  "resolve cwd p =
     (case resolveStep cwd (resolveStep p ([], False)) of
        (resolvedPath, resolvedAbsolute) \<Rightarrow>
          (let normalized = normalizeString resolvedPath (\<not> resolvedAbsolute) in
           if resolvedAbsolute then sep # normalized
           else if normalized \<noteq> [] then normalized
           else ''.''))"

definition dirname :: "string \<Rightarrow> string" where
  \<comment> \<open>\<^verbatim>\<open>path.dirname\<close>: trailing separators are skipped, then the last piece is cut off at
      the separator before it; the first character is never examined by the scan\<close>
  "dirname path =
     (if path = [] then ''.''
      else
        (let hasRoot = (hd path = sep);
             scanned = dropWhile (\<lambda>c. c \<noteq> sep) (dropWhile (\<lambda>c. c = sep) (rev (tl path)))
         in case scanned of
              [] \<Rightarrow> (if hasRoot then [sep] else ''.'')
            | _ # front \<Rightarrow>
                (if hasRoot \<and> front = [] then [sep, sep]
                 else hd path # rev front)))"

section \<open>Configuration and path validation\<close>

text \<open>
  The values the handlers read from their surroundings: the environment variable
  \<^verbatim>\<open>ALLOWED_DIRECTORY\<close> (the module refuses to load without it), \<^verbatim>\<open>process.cwd()\<close> and the
  module constant \<^verbatim>\<open>__dirname\<close>.
\<close>

record env =
  ALLOWED_DIRECTORY :: string
  cwd :: string
  module_dirname :: string

text \<open>What a \<^verbatim>\<open>throw\<close> carries: an \<^verbatim>\<open>Error\<close> with its message, or some other value.\<close>

datatype thrown = Error string | NonError

definition validatePath :: "env \<Rightarrow> string \<Rightarrow> thrown + string" where
  "validatePath e filePath =
     (let resolvedPath = resolve (cwd e) filePath;
          allowedPath = resolve (cwd e) (ALLOWED_DIRECTORY e)
      in if \<not> startsWith resolvedPath allowedPath
         then Inl (Error (''Access denied: Path '' @ filePath @ '' is outside allowed directory''))
         else Inr resolvedPath)"

text \<open>
  The membership test as the specification words it: the resolved candidate equals the
  resolved root, or begins with the resolved root followed at once by a separator.
\<close>

definition spec_within_root :: "string \<Rightarrow> string \<Rightarrow> bool" where
  "spec_within_root allowedPath resolvedPath \<longleftrightarrow>
     resolvedPath = allowedPath \<or> startsWith resolvedPath (allowedPath @ [sep])"

definition env_allowed :: env where
  "env_allowed = \<lparr>ALLOWED_DIRECTORY = ''/allowed'', cwd = ''/srv/app'',
                  module_dirname = ''/srv/app/dist''\<rparr>"

section \<open>The file system\<close>

text \<open>
  The handlers reach the file system through four calls of \<^verbatim>\<open>fs/promises\<close>:
  \<^verbatim>\<open>readFile\<close> with encoding \<^verbatim>\<open>utf-8\<close>, \<^verbatim>\<open>mkdir\<close> with \<^verbatim>\<open>recursive: true\<close>, \<^verbatim>\<open>writeFile\<close> and
  \<^verbatim>\<open>readdir\<close> with \<^verbatim>\<open>withFileTypes: true\<close>. The file system is a tree. A node is a regular
  file with its bytes, a directory with its entries in enumeration order, a symbolic link
  with its target, or a special node (FIFO, socket, device, or a node whose type the
  directory does not tell). The calls follow symbolic links as the kernel does, up to
  \<open>link_limit\<close> of them on one path. A special node other than a socket can be opened: a
  read delivers the bytes the node holds in the model, a write is taken by the node and
  leaves the tree as it is; a socket refuses to be opened. Calls that would wait for a
  peer are taken to be served. Permissions and quotas are not part of the model. Every
  call is recorded, in order.
\<close>

datatype dirent_type =
  RegularFile | Directory | SymbolicLink | FIFO | Socket | CharacterDevice | BlockDevice | Unknown

record dirent =
  name :: string
  dtype :: dirent_type

definition isDirectory :: "dirent \<Rightarrow> bool" where
  "isDirectory item \<longleftrightarrow> dtype item = Directory"

datatype special_type = Fifo | Sock | CharDev | BlockDev | Untyped

datatype node =
  File string | Dir "(string \<times> node) list" | Link string | Special special_type string

datatype errno =
  ENOENT | ENOTDIR | EISDIR | EEXIST | ENXIO | ELOOP | ERR_INVALID_ARG_VALUE

datatype fs_call =
  ReadFile string | Mkdir string | WriteFile string string | Readdir string

record world =
  fs :: node
  calls :: "fs_call list"

fun errno_text :: "errno \<Rightarrow> string" where
  "errno_text ENOENT = ''ENOENT: no such file or directory''"
| "errno_text ENOTDIR = ''ENOTDIR: not a directory''"
| "errno_text EISDIR = ''EISDIR: illegal operation on a directory''"
| "errno_text EEXIST = ''EEXIST: file already exists''"
| "errno_text ENXIO = ''ENXIO: no such device or address''"
| "errno_text ELOOP = ''ELOOP: too many symbolic links encountered''"
| "errno_text ERR_INVALID_ARG_VALUE =
     ''The argument '' @ [CHR 0x27] @ ''path'' @ [CHR 0x27] @
     '' must be a string, Uint8Array, or URL without null bytes.''"

definition inspect :: "string \<Rightarrow> string" where
  \<comment> \<open>the quoted form in which an error shows a string; of the escapes of
      \<^verbatim>\<open>util.inspect\<close> only the one of the null byte is modelled\<close>
  "inspect s =
     [CHR 0x27] @ concat (map (\<lambda>c. if c = CHR 0x00 then [CHR 0x5C] @ ''x00'' else [c]) s) @
     [CHR 0x27]"

definition fs_error :: "errno \<Rightarrow> string \<Rightarrow> string \<Rightarrow> thrown" where
  \<comment> \<open>the \<^verbatim>\<open>Error\<close> a failed call rejects with\<close>
  "fs_error code syscall path =
     (if code = ERR_INVALID_ARG_VALUE
      then Error (errno_text code @ '' Received '' @ inspect path)
      else Error (errno_text code @ '', '' @ syscall @ '' '' @ [CHR 0x27] @ path @ [CHR 0x27]))"

definition path_names :: "string \<Rightarrow> string list" where
  \<comment> \<open>the names along a path\<close>
  "path_names path = filter (\<lambda>s. s \<noteq> []) (split_sep path)"

definition has_nul :: "string list \<Rightarrow> bool" where
  \<comment> \<open>Node refuses a path with a null byte before it asks the kernel\<close>
  "has_nul names \<longleftrightarrow> (\<exists>s \<in> set names. CHR 0x00 \<in> set s)"

definition plain_name :: "string \<Rightarrow> bool" where
  \<comment> \<open>a name as it stands in a resolved path: not empty, not a dot name, free of separators\<close>
  "plain_name n \<longleftrightarrow> n \<noteq> [] \<and> n \<noteq> ''.'' \<and> n \<noteq> ''..'' \<and> sep \<notin> set n"

definition link_limit :: nat where
  \<comment> \<open>the bound of Linux on the links followed in one path\<close>
  "link_limit = 40"

subsection \<open>Places in the tree\<close>

fun descend :: "node \<Rightarrow> string list \<Rightarrow> errno + node" where
  \<comment> \<open>the node at a place, a list of names from the root that are taken as they stand\<close>
  "descend n [] = Inr n"
| "descend (Dir entries) (s # ss) =
     (case map_of entries s of
        None \<Rightarrow> Inl ENOENT
      | Some n \<Rightarrow> descend n ss)"
| "descend _ (s # ss) = Inl ENOTDIR"

datatype kind = KDir | KLink string | KLeaf

fun kind_of :: "node \<Rightarrow> kind" where
  "kind_of (Dir _) = KDir"
| "kind_of (Link target) = KLink target"
| "kind_of (File _) = KLeaf"
| "kind_of (Special _ _) = KLeaf"

definition kind_at :: "node \<Rightarrow> string list \<Rightarrow> kind option" where
  "kind_at root place = (case descend root place of Inl _ \<Rightarrow> None | Inr n \<Rightarrow> Some (kind_of n))"

definition link_base :: "string \<Rightarrow> string list \<Rightarrow> string list" where
  \<comment> \<open>where the target of a link found in the directory at \<open>here\<close> starts from\<close>
  "link_base target here = (if startsWith target [sep] then [] else here)"

fun walk :: "bool \<Rightarrow> nat \<Rightarrow> node \<Rightarrow> string list \<Rightarrow> string list \<Rightarrow> errno + string list" where
  \<comment> \<open>path resolution of the kernel: from the directory at place \<open>here\<close> along the names
      \<open>rest\<close>, with \<open>k\<close> links still allowed; the result is the place reached, free of links
      and dot names. With \<open>create\<close> the last name may be absent (\<^verbatim>\<open>O_CREAT\<close>).\<close>
  "walk create k root here [] = Inr here"
| "walk create k root here (s # rest) =
     (case kind_at root here of
        None \<Rightarrow> Inl ENOENT
      | Some KLeaf \<Rightarrow> Inl ENOTDIR
      | Some (KLink _) \<Rightarrow> Inl ELOOP
      | Some KDir \<Rightarrow>
          if s = [] \<or> s = ''.'' then walk create k root here rest
          else if s = ''..'' then walk create k root (butlast here) rest
          else
            (case kind_at root (here @ [s]) of
               None \<Rightarrow> if create \<and> rest = [] then Inr (here @ [s]) else Inl ENOENT
             | Some (KLink target) \<Rightarrow>
                 (case k of
                    0 \<Rightarrow> Inl ELOOP
                  | Suc k' \<Rightarrow>
                      walk create k' root (link_base target here) (path_names target @ rest))
             | Some _ \<Rightarrow> walk create k root (here @ [s]) rest))"

definition lookup :: "node \<Rightarrow> string list \<Rightarrow> errno + node" where
  \<comment> \<open>the node that a path names, links followed\<close>
  "lookup root names =
     (if has_nul names then Inl ERR_INVALID_ARG_VALUE
      else case walk False link_limit root [] names of
             Inl code \<Rightarrow> Inl code
           | Inr place \<Rightarrow> descend root place)"

fun put :: "node \<Rightarrow> string list \<Rightarrow> node \<Rightarrow> errno + node" where
  \<comment> \<open>the tree with the node at a place set; the directory above the place must exist\<close>
  "put old [] n = Inr n"
| "put (Dir entries) (s # ss) n =
     (case map_of entries s of
        None \<Rightarrow> (if ss = [] then Inr (Dir (AList.update s n entries)) else Inl ENOENT)
      | Some m \<Rightarrow>
          (case put m ss n of
             Inl code \<Rightarrow> Inl code
           | Inr m' \<Rightarrow> Inr (Dir (AList.update s m' entries))))"
| "put _ (s # ss) n = Inl ENOTDIR"

definition accepts_open :: "special_type \<Rightarrow> bool" where
  "accepts_open t \<longleftrightarrow> t \<noteq> Sock"

fun special_dirent :: "special_type \<Rightarrow> dirent_type" where
  "special_dirent Fifo = FIFO"
| "special_dirent Sock = Socket"
| "special_dirent CharDev = CharacterDevice"
| "special_dirent BlockDev = BlockDevice"
| "special_dirent Untyped = Unknown"

fun node_type :: "node \<Rightarrow> dirent_type" where
  \<comment> \<open>the type of the entry itself, as the directory tells it\<close>
  "node_type (File _) = RegularFile"
| "node_type (Dir _) = Directory"
| "node_type (Link _) = SymbolicLink"
| "node_type (Special t _) = special_dirent t"

subsection \<open>Trees that grow\<close>



subsection \<open>Text in files\<close>

text \<open>
  A file holds bytes. \<^verbatim>\<open>writeFile\<close> with \<^verbatim>\<open>utf-8\<close> stores the UTF-8 form of the string, which
  for text is the string as modelled here. \<^verbatim>\<open>readFile\<close> with \<^verbatim>\<open>utf-8\<close> decodes the bytes:
  what is no UTF-8 comes out as U+FFFD, one for each maximal ill-formed piece.
\<close>

definition byte_in :: "nat \<Rightarrow> nat \<Rightarrow> char \<Rightarrow> bool" where
  "byte_in lo hi b \<longleftrightarrow> lo \<le> of_char b \<and> of_char b \<le> hi"

definition second_lo :: "char \<Rightarrow> nat" where
  \<comment> \<open>the least second byte after a lead byte (no overlong forms)\<close>
  "second_lo b = (if b = CHR 0xE0 then 0xA0 else if b = CHR 0xF0 then 0x90 else 0x80)"

definition second_hi :: "char \<Rightarrow> nat" where
  \<comment> \<open>the greatest second byte after a lead byte (no surrogates, nothing above U+10FFFF)\<close>
  "second_hi b = (if b = CHR 0xED then 0x9F else if b = CHR 0xF4 then 0x8F else 0xBF)"

definition replacement :: string where
  \<comment> \<open>U+FFFD\<close>
  "replacement = [CHR 0xEF, CHR 0xBF, CHR 0xBD]"


fun utf8_decode :: "string \<Rightarrow> string" where
  "utf8_decode [] = []"
| "utf8_decode (b # bs) =
     (if byte_in 0x00 0x7F b then b # utf8_decode bs
      else if byte_in 0xC2 0xDF b then
        (case bs of
           [] \<Rightarrow> replacement
         | c1 # r1 \<Rightarrow>
             if byte_in 0x80 0xBF c1 then b # c1 # utf8_decode r1
             else replacement @ utf8_decode bs)
      else if byte_in 0xE0 0xEF b then
        (case bs of
           [] \<Rightarrow> replacement
         | c1 # r1 \<Rightarrow>
             if byte_in (second_lo b) (second_hi b) c1 then
               (case r1 of
                  [] \<Rightarrow> replacement
                | c2 # r2 \<Rightarrow>
                    if byte_in 0x80 0xBF c2 then b # c1 # c2 # utf8_decode r2
                    else replacement @ utf8_decode r1)
             else replacement @ utf8_decode bs)
      else if byte_in 0xF0 0xF4 b then
        (case bs of
           [] \<Rightarrow> replacement
         | c1 # r1 \<Rightarrow>
             if byte_in (second_lo b) (second_hi b) c1 then
               (case r1 of
                  [] \<Rightarrow> replacement
                | c2 # r2 \<Rightarrow>
                    if byte_in 0x80 0xBF c2 then
                      (case r2 of
                         [] \<Rightarrow> replacement
                       | c3 # r3 \<Rightarrow>
                           if byte_in 0x80 0xBF c3 then b # c1 # c2 # c3 # utf8_decode r3
                           else replacement @ utf8_decode r2)
                    else replacement @ utf8_decode r1)
             else replacement @ utf8_decode bs)
      else replacement @ utf8_decode bs)"

subsection \<open>The four calls\<close>

definition logged :: "fs_call \<Rightarrow> world \<Rightarrow> world" where
  "logged c w = w\<lparr>calls := calls w @ [c]\<rparr>"

definition readFile :: "string \<Rightarrow> world \<Rightarrow> (thrown + string) \<times> world" where
  "readFile path w =
     (case lookup (fs w) (path_names path) of
        Inl code \<Rightarrow> (Inl (fs_error code ''open'' path), logged (ReadFile path) w)
      | Inr (File bytes) \<Rightarrow> (Inr (utf8_decode bytes), logged (ReadFile path) w)
      | Inr (Dir _) \<Rightarrow>
          (Inl (Error (errno_text EISDIR @ '', read'')), logged (ReadFile path) w)
      | Inr (Link _) \<Rightarrow> (Inl (fs_error ELOOP ''open'' path), logged (ReadFile path) w)
      | Inr (Special t bytes) \<Rightarrow>
          (if accepts_open t then (Inr (utf8_decode bytes), logged (ReadFile path) w)
           else (Inl (fs_error ENXIO ''open'' path), logged (ReadFile path) w)))"

fun mkdir_from :: "node \<Rightarrow> string list \<Rightarrow> string list \<Rightarrow> errno + node" where
  \<comment> \<open>recursive creation below the directory at place \<open>here\<close>: a name that leads to a
      directory, through links or not, is entered; a name that is absent is created\<close>
  "mkdir_from root here [] = Inr root"
| "mkdir_from root here (s # rest) =
     (if kind_at root here = Some KDir \<and> plain_name s \<and> kind_at root (here @ [s]) = None
      then (case put root (here @ [s]) (Dir []) of
              Inl code \<Rightarrow> Inl code
            | Inr root' \<Rightarrow> mkdir_from root' (here @ [s]) rest)
      else (case walk False link_limit root here [s] of
              Inl code \<Rightarrow> Inl code
            | Inr place \<Rightarrow>
                (case kind_at root place of
                   Some KDir \<Rightarrow> mkdir_from root place rest
                 | _ \<Rightarrow> Inl (if rest = [] then EEXIST else ENOTDIR))))"

definition mkdir :: "string \<Rightarrow> world \<Rightarrow> (thrown + unit) \<times> world" where
  "mkdir path w =
     (if has_nul (path_names path)
      then (Inl (fs_error ERR_INVALID_ARG_VALUE ''mkdir'' path), logged (Mkdir path) w)
      else case mkdir_from (fs w) [] (path_names path) of
             Inl code \<Rightarrow> (Inl (fs_error code ''mkdir'' path), logged (Mkdir path) w)
           | Inr t \<Rightarrow> (Inr (), logged (Mkdir path) (w\<lparr>fs := t\<rparr>)))"

definition store :: "node \<Rightarrow> string list \<Rightarrow> string \<Rightarrow> errno + node" where
  \<comment> \<open>open the place with the default flag \<^verbatim>\<open>w\<close> (create or truncate), then write all of
      the bytes\<close>
  "store root place bytes =
     (case descend root place of
        Inr (Dir _) \<Rightarrow> Inl EISDIR
      | Inr (Link _) \<Rightarrow> Inl ELOOP
      | Inr (Special t _) \<Rightarrow> (if accepts_open t then Inr root else Inl ENXIO)
      | Inr (File _) \<Rightarrow> put root place (File bytes)
      | Inl _ \<Rightarrow> put root place (File bytes))"

definition writeFile :: "string \<Rightarrow> string \<Rightarrow> world \<Rightarrow> (thrown + unit) \<times> world" where
  "writeFile path data w =
     (if has_nul (path_names path)
      then (Inl (fs_error ERR_INVALID_ARG_VALUE ''open'' path), logged (WriteFile path data) w)
      else case walk True link_limit (fs w) [] (path_names path) of
             Inl code \<Rightarrow> (Inl (fs_error code ''open'' path), logged (WriteFile path data) w)
           | Inr place \<Rightarrow>
               (case store (fs w) place data of
                  Inl code \<Rightarrow>
                    (Inl (fs_error code ''open'' path), logged (WriteFile path data) w)
                | Inr t \<Rightarrow> (Inr (), logged (WriteFile path data) (w\<lparr>fs := t\<rparr>))))"

definition readdir :: "string \<Rightarrow> world \<Rightarrow> (thrown + dirent list) \<times> world" where
  "readdir path w =
     (case lookup (fs w) (path_names path) of
        Inl code \<Rightarrow> (Inl (fs_error code ''scandir'' path), logged (Readdir path) w)
      | Inr (Dir entries) \<Rightarrow>
          (Inr (map (\<lambda>(k, n). \<lparr>name = k, dtype = node_type n\<rparr>) entries),
           logged (Readdir path) w)
      | Inr _ \<Rightarrow> (Inl (fs_error ENOTDIR ''scandir'' path), logged (Readdir path) w))"

section \<open>The three tools\<close>

text \<open>
  A tool answers with a list of content items and the flag \<^verbatim>\<open>isError\<close>; a result without
  the flag counts as a success. Each handler is a \<^verbatim>\<open>try\<close> block, modelled by the
  function named \<open>_try\<close>, which may throw, and a \<^verbatim>\<open>catch\<close> block that turns whatever was
  thrown into a result.
\<close>

datatype content_item = TextContent string

record tool_result =
  content :: "content_item list"
  isError :: bool

definition success :: "string \<Rightarrow> tool_result" where
  "success text = \<lparr>content = [TextContent text], isError = False\<rparr>"

definition failure :: "string \<Rightarrow> tool_result" where
  "failure text = \<lparr>content = [TextContent text], isError = True\<rparr>"

fun errorMessage :: "thrown \<Rightarrow> string" where
  \<comment> \<open>\<^verbatim>\<open>error instanceof Error ? error.message : "Unknown error"\<close>\<close>
  "errorMessage (Error message) = message"
| "errorMessage NonError = ''Unknown error''"

definition nl :: char where
  "nl = CHR 0x0A"

definition read_file_try :: "env \<Rightarrow> string \<Rightarrow> world \<Rightarrow> (thrown + tool_result) \<times> world" where
  "read_file_try e filePath w =
     (case validatePath e filePath of
        Inl error \<Rightarrow> (Inl error, w)
      | Inr validatedPath \<Rightarrow>
          (case readFile validatedPath w of
             (Inl error, w') \<Rightarrow> (Inl error, w')
           | (Inr data, w') \<Rightarrow>
               (Inr (success (''File: '' @ filePath @ [nl, nl] @ data)), w')))"

definition read_file :: "env \<Rightarrow> string \<Rightarrow> world \<Rightarrow> tool_result \<times> world" where
  "read_file e filePath w =
     (case read_file_try e filePath w of
        (Inr result, w') \<Rightarrow> (result, w')
      | (Inl error, w') \<Rightarrow>
          (failure (''Error reading file '' @ filePath @ '': '' @ errorMessage error), w'))"

definition write_file_try ::
  "env \<Rightarrow> string \<Rightarrow> string \<Rightarrow> world \<Rightarrow> (thrown + tool_result) \<times> world" where
  "write_file_try e filePath data w =
     (case validatePath e filePath of
        Inl error \<Rightarrow> (Inl error, w)
      | Inr validatedPath \<Rightarrow>
          (let directory = dirname validatedPath in
           case mkdir directory w of
             (Inl error, w') \<Rightarrow> (Inl error, w')
           | (Inr _, w') \<Rightarrow>
               (case writeFile validatedPath data w' of
                  (Inl error, w'') \<Rightarrow> (Inl error, w'')
                | (Inr _, w'') \<Rightarrow>
                    (Inr (success (''Successfully wrote to file: '' @ filePath)), w''))))"

definition write_file :: "env \<Rightarrow> string \<Rightarrow> string \<Rightarrow> world \<Rightarrow> tool_result \<times> world" where
  "write_file e filePath data w =
     (case write_file_try e filePath data w of
        (Inr result, w') \<Rightarrow> (result, w')
      | (Inl error, w') \<Rightarrow>
          (failure (''Error writing file '' @ filePath @ '': '' @ errorMessage error), w'))"

definition debugInfo :: "env \<Rightarrow> string \<Rightarrow> string" where
  "debugInfo e dirPath =
     ''Debug info:'' @ [nl] @
     ''- ALLOWED_DIRECTORY: '' @ ALLOWED_DIRECTORY e @ [nl] @
     ''- Requested path: '' @ dirPath @ [nl] @
     ''- process.cwd(): '' @ cwd e @ [nl] @
     ''- __dirname: '' @ module_dirname e"

definition folder_sign :: string where
  \<comment> \<open>U+1F4C1\<close>
  "folder_sign = [CHR 0xF0, CHR 0x9F, CHR 0x93, CHR 0x81]"

definition page_sign :: string where
  \<comment> \<open>U+1F4C4\<close>
  "page_sign = [CHR 0xF0, CHR 0x9F, CHR 0x93, CHR 0x84]"

definition fileList :: "dirent list \<Rightarrow> (string \<times> string) list" where
  \<comment> \<open>the objects \<^verbatim>\<open>{name, type}\<close>, as pairs\<close>
  "fileList items =
     map (\<lambda>item. (name item, if isDirectory item then ''directory'' else ''file'')) items"

definition formattedList :: "(string \<times> string) list \<Rightarrow> string" where
  "formattedList entries =
     join [nl]
       (map (\<lambda>(item_name, item_type).
               (if item_type = ''directory'' then folder_sign else page_sign) @ '' '' @ item_name)
          entries)"

definition defaulted :: "string option \<Rightarrow> string" where
  \<comment> \<open>the parameter default \<^verbatim>\<open>dirPath = "."\<close>\<close>
  "defaulted arg = (case arg of None \<Rightarrow> ''.'' | Some dirPath \<Rightarrow> dirPath)"

definition list_files_try ::
  "env \<Rightarrow> string option \<Rightarrow> world \<Rightarrow> (thrown + tool_result) \<times> world" where
  "list_files_try e arg w =
     (let dirPath = defaulted arg in
      case validatePath e dirPath of
        Inl error \<Rightarrow> (Inl error, w)
      | Inr validatedPath \<Rightarrow>
          (case readdir validatedPath w of
             (Inl error, w') \<Rightarrow> (Inl error, w')
           | (Inr items, w') \<Rightarrow>
               (Inr (success (debugInfo e dirPath @ [nl, nl] @
                       ''Contents of '' @ dirPath @ '' (resolved to '' @ validatedPath @ ''):'' @
                       [nl, nl] @ formattedList (fileList items))), w')))"

definition list_files :: "env \<Rightarrow> string option \<Rightarrow> world \<Rightarrow> tool_result \<times> world" where
  "list_files e arg w =
     (let dirPath = defaulted arg in
      case list_files_try e arg w of
        (Inr result, w') \<Rightarrow> (result, w')
      | (Inl error, w') \<Rightarrow>
          (failure (debugInfo e dirPath @ [nl, nl] @
             ''Error listing directory '' @ dirPath @ '': '' @ errorMessage error), w'))"

definition result_text :: "tool_result \<Rightarrow> string" where
  \<comment> \<open>the text of the first content item\<close>
  "result_text r = (case content r of TextContent text # _ \<Rightarrow> text | [] \<Rightarrow> [])"

subsection \<open>Sample file systems\<close>

definition world_sample :: world where
  "world_sample =
     \<lparr>fs = Dir [(''allowed'', Dir [(''notes.txt'', File ''hello''),
                                 (''docs'', Dir []),
                                 (''latest'', Link ''notes.txt'')]),
                (''srv'', Dir [(''app'', Dir [(''dist'', Dir [])])]),
                (''etc'', Dir [(''passwd'', File ''root'')])],
      calls = []\<rparr>"


section \<open>Auxiliary facts\<close>

subsection \<open>Resolution on sample paths\<close>

lemma resolve_absolute_examples:
  "resolve ''/srv/app'' ''/allowed'' = ''/allowed''"
  "resolve ''/srv/app'' ''/allowed/x'' = ''/allowed/x''"
  "resolve ''/srv/app'' ''/allowed-evil/x'' = ''/allowed-evil/x''"
  "resolve ''/srv/app'' ''/allowed/../outside/x'' = ''/outside/x''"
  "resolve ''/srv/app'' ''/allowed/../allowed-evil/x'' = ''/allowed-evil/x''"
  "resolve ''/srv/app'' ''/etc'' = ''/etc''"
  by (simp_all add: resolve_def resolveStep_def normalizeString_def normalizeStep_def sep_def)

subsection \<open>Resolved paths are normalised\<close>

lemma split_sep_nonempty: "split_sep p \<noteq> []"
  by (induction p) (auto split: list.splits)

lemma split_sep_no_sep: "s \<in> set (split_sep p) \<Longrightarrow> sep \<notin> set s"
  by (induction p arbitrary: s) (auto split: list.splits if_splits)

lemma split_sep_append:
  "sep \<notin> set x \<Longrightarrow> split_sep (x @ sep # rest) = x # split_sep rest"
  by (induction x) (auto simp: split_sep_nonempty split: list.splits)

lemma split_sep_plain: "sep \<notin> set x \<Longrightarrow> split_sep x = [x]"
  by (induction x) auto

lemma split_sep_join:
  "names \<noteq> [] \<Longrightarrow> \<forall>n \<in> set names. sep \<notin> set n \<Longrightarrow> split_sep (join [sep] names) = names"
  by (induction "[sep]" names rule: join.induct) (auto simp: split_sep_plain split_sep_append)

lemma normalizeStep_plain:
  "\<forall>n \<in> set res. plain_name n \<Longrightarrow> sep \<notin> set seg
     \<Longrightarrow> \<forall>n \<in> set (normalizeStep False res seg). plain_name n"
  by (auto simp: normalizeStep_def plain_name_def dest: in_set_butlastD)

lemma foldl_normalizeStep_plain:
  "\<forall>n \<in> set res. plain_name n \<Longrightarrow> \<forall>s \<in> set segs. sep \<notin> set s
     \<Longrightarrow> \<forall>n \<in> set (foldl (normalizeStep False) res segs). plain_name n"
proof (induction segs arbitrary: res)
  case Nil
  then show ?case by simp
next
  case (Cons s segs)
  have "\<forall>n \<in> set (normalizeStep False res s). plain_name n"
    using Cons.prems by (intro normalizeStep_plain) auto
  then show ?case
    using Cons.IH Cons.prems by simp
qed

lemma path_names_join:
  assumes "\<forall>n \<in> set names. plain_name n"
  shows "path_names (sep # join [sep] names) = names"
proof (cases names)
  case Nil
  then show ?thesis by (simp add: path_names_def)
next
  case (Cons a list)
  have "split_sep (join [sep] names) = names"
    using assms Cons by (intro split_sep_join) (auto simp: plain_name_def)
  then show ?thesis
    using assms by (auto simp: path_names_def plain_name_def filter_id_conv)
qed

lemma resolve_absolute_shape:
  assumes "c \<noteq> []" and "hd c = sep"
  shows "\<exists>names. resolve c p = sep # join [sep] names \<and> (\<forall>n \<in> set names. plain_name n)
           \<and> path_names (resolve c p) = names"
proof -
  have "\<exists>rp. resolveStep c (resolveStep p ([], False)) = (rp, True)"
    using assms by (cases "p = []"; cases "hd p = sep") (simp_all add: resolveStep_def)
  then obtain rp where rp: "resolveStep c (resolveStep p ([], False)) = (rp, True)" ..
  let ?names = "foldl (normalizeStep False) [] (split_sep rp)"
  have shape: "resolve c p = sep # join [sep] ?names"
    by (simp add: resolve_def rp normalizeString_def)
  have plain: "\<forall>n \<in> set ?names. plain_name n"
    by (intro foldl_normalizeStep_plain) (auto dest: split_sep_no_sep)
  with shape show ?thesis
    by (auto simp: path_names_join)
qed

subsection \<open>What validation decides\<close>

lemma validatePath_Inr_iff:
  "validatePath e p = Inr v \<longleftrightarrow>
     v = resolve (cwd e) p \<and> prefix (resolve (cwd e) (ALLOWED_DIRECTORY e)) v"
  by (auto simp: validatePath_def startsWith_def Let_def)

lemma validatePath_Inl:
  "validatePath e p = Inl err \<Longrightarrow>
     err = Error (''Access denied: Path '' @ p @ '' is outside allowed directory'')"
  by (auto simp: validatePath_def Let_def split: if_splits)

lemma spec_within_root_accepted:
  "spec_within_root (resolve (cwd e) (ALLOWED_DIRECTORY e)) (resolve (cwd e) p)
     \<Longrightarrow> validatePath e p = Inr (resolve (cwd e) p)"
  by (auto simp: validatePath_Inr_iff spec_within_root_def startsWith_def
      dest: append_prefixD)

lemma relative_candidate_resolved_against_cwd:
  assumes "c \<noteq> []" and "hd c = sep" and "p \<noteq> []" and "hd p \<noteq> sep"
  shows "resolve c p = resolve c' (c @ [sep] @ p)"
  using assms by (simp add: resolve_def resolveStep_def)

lemma validation_depends_on_cwd:
  "validatePath (env_allowed\<lparr>cwd := ''/allowed/docs''\<rparr>) ''.'' = Inr ''/allowed/docs''"
  "validatePath env_allowed ''.'' =
     Inl (Error ''Access denied: Path . is outside allowed directory'')"
  by code_simp+

lemma traversal_out_of_root_rejected:
  "validatePath env_allowed ''/allowed/../outside/x'' =
     Inl (Error ''Access denied: Path /allowed/../outside/x is outside allowed directory'')"
  by (simp add: validatePath_def env_allowed_def resolve_absolute_examples startsWith_def)

subsection \<open>Results and the call log\<close>

lemma fs_logged [simp]: "fs (logged c w) = fs w"
  by (simp add: logged_def)

lemma calls_logged [simp]: "calls (logged c w) = calls w @ [c]"
  by (simp add: logged_def)

lemma isError_success [simp]: "\<not> isError (success text)"
  by (simp add: success_def)

lemma isError_failure [simp]: "isError (failure text)"
  by (simp add: failure_def)

lemma sublist_result_text_failure:
  "sublist p (result_text (failure (pre @ p @ post)))"
  by (simp add: result_text_def failure_def)

subsection \<open>Places and kinds\<close>

lemma descend_append:
  "descend t (a @ b) = (case descend t a of Inl code \<Rightarrow> Inl code | Inr n \<Rightarrow> descend n b)"
  by (induction t a rule: descend.induct) (auto split: option.splits)

lemma kind_at_Nil [simp]: "kind_at t [] = Some (kind_of t)"
  by (simp add: kind_at_def)












subsection \<open>Path resolution on a tree that grows\<close>








subsection \<open>Decoding text\<close>


subsection \<open>The handlers\<close>

lemma list_files_unfold:
  "list_files e arg w =
     (case validatePath e (defaulted arg) of
        Inl err \<Rightarrow>
          (failure (debugInfo e (defaulted arg) @ [nl, nl] @
             ''Error listing directory '' @ defaulted arg @ '': '' @ errorMessage err), w)
      | Inr v \<Rightarrow>
          (case readdir v w of
             (Inl err, w') \<Rightarrow>
               (failure (debugInfo e (defaulted arg) @ [nl, nl] @
                  ''Error listing directory '' @ defaulted arg @ '': '' @ errorMessage err), w')
           | (Inr items, w') \<Rightarrow>
               (success (debugInfo e (defaulted arg) @ [nl, nl] @
                  ''Contents of '' @ defaulted arg @ '' (resolved to '' @ v @ ''):'' @
                  [nl, nl] @ formattedList (fileList items)), w')))"
  by (simp add: list_files_def list_files_try_def Let_def split: sum.splits prod.splits)

lemma list_files_default:
  "list_files e None w = list_files e (Some ''.'') w"
  by (simp add: list_files_def list_files_try_def defaulted_def)

lemma mkdir_done:
  assumes "mkdir path w = (Inr u, w1)"
  shows "mkdir_from (fs w) [] (path_names path) = Inr (fs w1)"
    and "calls w1 = calls w @ [Mkdir path]"
    and "\<not> has_nul (path_names path)"
  using assms by (auto simp: mkdir_def split: if_splits sum.splits)

lemma writeFile_done:
  assumes "writeFile path bytes w = (Inr u, w1)"
  obtains place where "\<not> has_nul (path_names path)"
    and "walk True link_limit (fs w) [] (path_names path) = Inr place"
    and "store (fs w) place bytes = Inr (fs w1)"
    and "calls w1 = calls w @ [WriteFile path bytes]"
  using assms by (auto simp: writeFile_def split: if_splits sum.splits)

lemma write_file_succeeds:
  assumes "\<not> isError (fst (write_file e p c w))"
  obtains v w1 w2 where "validatePath e p = Inr v"
    and "mkdir (dirname v) w = (Inr (), w1)"
    and "writeFile v c w1 = (Inr (), w2)"
    and "write_file e p c w = (success (''Successfully wrote to file: '' @ p), w2)"
  using assms
  by (auto simp: write_file_def write_file_try_def Let_def split: sum.splits prod.splits)




lemma lookup_at:
  assumes "\<not> has_nul names" and "walk False link_limit t [] names = Inr place"
  shows "lookup t names = descend t place"
  using assms by (simp add: lookup_def)






lemma write_file_calls_in_order:
  assumes "\<not> isError (fst (write_file e p c w))"
  shows "calls (snd (write_file e p c w)) =
     calls w @ [Mkdir (dirname (resolve (cwd e) p)), WriteFile (resolve (cwd e) p) c]"
proof -
  from assms obtain v w1 w2 where v: "validatePath e p = Inr v"
    and m: "mkdir (dirname v) w = (Inr (), w1)"
    and wr: "writeFile v c w1 = (Inr (), w2)"
    and all: "write_file e p c w = (success (''Successfully wrote to file: '' @ p), w2)"
    by (rule write_file_succeeds)
  have "v = resolve (cwd e) p"
    using v by (simp add: validatePath_Inr_iff)
  moreover from m have "calls w1 = calls w @ [Mkdir (dirname v)]"
    by (rule mkdir_done)
  moreover from wr have "calls w2 = calls w1 @ [WriteFile v c]"
    by (rule writeFile_done)
  ultimately show ?thesis
    by (simp add: all)
qed

section \<open>Path confinement\<close>

text \<open>
  Claim C1. Validation should accept a candidate exactly when its resolved path is the
  resolved root or begins with the resolved root and a separator. The code tests a bare
  string prefix: with root \<^verbatim>\<open>/allowed\<close> it accepts \<^verbatim>\<open>/allowed/x\<close>, and it accepts
  \<^verbatim>\<open>/allowed-evil/x\<close> as well, which the specified test excludes.
\<close>

theorem validatePath_accepts_prefix_collision:
  "validatePath env_allowed ''/allowed/x'' = Inr ''/allowed/x''
   \<and> validatePath env_allowed ''/allowed-evil/x'' = Inr ''/allowed-evil/x''
   \<and> \<not> spec_within_root (resolve (cwd env_allowed) (ALLOWED_DIRECTORY env_allowed))
          (resolve (cwd env_allowed) ''/allowed-evil/x'')"
  by (simp add: validatePath_def env_allowed_def resolve_absolute_examples
      spec_within_root_def startsWith_def sep_def)

text \<open>
  Claim C2. A candidate with \<^verbatim>\<open>..\<close> pieces whose resolution lies outside the root should be
  rejected. The pieces are normalised before the test: a resolved path has no dot names
  left (\<open>resolve_absolute_shape\<close>), and \<^verbatim>\<open>/allowed/../outside/x\<close> is refused
  (\<open>traversal_out_of_root_rejected\<close>). But the bare prefix test lets a traversal into a
  sibling whose name continues the root's name through: \<^verbatim>\<open>/allowed/../allowed-evil/x\<close>
  resolves to \<^verbatim>\<open>/allowed-evil/x\<close>, outside the root, and is accepted.
\<close>

theorem validatePath_accepts_traversal_into_sibling:
  "validatePath env_allowed ''/allowed/../allowed-evil/x'' = Inr ''/allowed-evil/x''
   \<and> \<not> spec_within_root (resolve (cwd env_allowed) (ALLOWED_DIRECTORY env_allowed))
          (resolve (cwd env_allowed) ''/allowed/../allowed-evil/x'')"
  by (simp add: validatePath_def env_allowed_def resolve_absolute_examples
      spec_within_root_def startsWith_def sep_def)

text \<open>
  Claim C3, amended. When validation rejects the candidate, each of the three tools leaves
  the world as it was (no call reaches the file system) and answers with a failure whose
  text contains the candidate as given. The texts of \<open>read_file\<close> and \<open>write_file\<close> are
  made of fixed words and the candidate alone; the text of \<open>list_files\<close> starts with its
  debug block, which shows \<^verbatim>\<open>ALLOWED_DIRECTORY\<close>, the working directory and the module
  directory. A call of \<open>list_files\<close> without argument is the case of the candidate \<^verbatim>\<open>.\<close>
  (\<open>list_files_default\<close>).
\<close>

theorem rejected_candidate_leaves_file_system_alone:
  assumes "validatePath e p = Inl err"
  shows "read_file e p w =
           (failure (''Error reading file '' @ p @ '': Access denied: Path '' @ p @
              '' is outside allowed directory''), w)
     \<and> write_file e p c w =
           (failure (''Error writing file '' @ p @ '': Access denied: Path '' @ p @
              '' is outside allowed directory''), w)
     \<and> list_files e (Some p) w =
           (failure (debugInfo e p @ [nl, nl] @ ''Error listing directory '' @ p @
              '': Access denied: Path '' @ p @ '' is outside allowed directory''), w)
     \<and> sublist p (result_text (fst (read_file e p w)))
     \<and> sublist p (result_text (fst (write_file e p c w)))
     \<and> sublist p (result_text (fst (list_files e (Some p) w)))"
proof -
  from assms have err: "errorMessage err = ''Access denied: Path '' @ p @ '' is outside allowed directory''"
    by (auto dest: validatePath_Inl)
  have r: "read_file e p w =
           (failure (''Error reading file '' @ p @ '': Access denied: Path '' @ p @
              '' is outside allowed directory''), w)"
    using assms err by (simp add: read_file_def read_file_try_def)
  have wr: "write_file e p c w =
           (failure (''Error writing file '' @ p @ '': Access denied: Path '' @ p @
              '' is outside allowed directory''), w)"
    using assms err by (simp add: write_file_def write_file_try_def)
  have l: "list_files e (Some p) w =
           (failure (debugInfo e p @ [nl, nl] @ ''Error listing directory '' @ p @
              '': Access denied: Path '' @ p @ '' is outside allowed directory''), w)"
    using assms err by (simp add: list_files_unfold defaulted_def)
  have "sublist p (result_text (fst (read_file e p w)))"
    unfolding r fst_conv by (rule sublist_result_text_failure)
  moreover have "sublist p (result_text (fst (write_file e p c w)))"
    unfolding wr fst_conv by (rule sublist_result_text_failure)
  moreover have "sublist p (result_text (fst (list_files e (Some p) w)))"
    unfolding l fst_conv
    using sublist_result_text_failure
      [of p "debugInfo e p @ [nl, nl] @ ''Error listing directory ''"]
    by simp
  ultimately show ?thesis
    using r wr l by simp
qed

theorem rejected_candidate_leaves_file_system_alone_witness:
  "validatePath env_allowed ''/etc/passwd'' =
     Inl (Error ''Access denied: Path /etc/passwd is outside allowed directory'')
   \<and> read_file env_allowed ''/etc/passwd'' world_sample =
       (failure ''Error reading file /etc/passwd: Access denied: Path /etc/passwd is outside allowed directory'',
        world_sample)
   \<and> snd (write_file env_allowed ''/etc/passwd'' ''x'' world_sample) = world_sample
   \<and> snd (list_files env_allowed (Some ''/etc/passwd'') world_sample) = world_sample"
proof -
  have rejected: "validatePath env_allowed ''/etc/passwd'' =
     Inl (Error ''Access denied: Path /etc/passwd is outside allowed directory'')"
    by (simp add: validatePath_def env_allowed_def startsWith_def
      resolve_def resolveStep_def normalizeString_def normalizeStep_def sep_def)
  show ?thesis
    using rejected_candidate_leaves_file_system_alone [OF rejected, of world_sample "''x''"]
    by (simp add: rejected)
qed

text \<open>
  The first wording also asked that the text never contain the resolved root. For
  \<open>list_files\<close> it does: the debug block prints the configured directory.
\<close>

theorem list_files_denial_names_allowed_root:
  "validatePath env_allowed ''/etc'' =
     Inl (Error ''Access denied: Path /etc is outside allowed directory'')
   \<and> isError (fst (list_files env_allowed (Some ''/etc'') world_sample))
   \<and> sublist (resolve (cwd env_allowed) (ALLOWED_DIRECTORY env_allowed))
        (result_text (fst (list_files env_allowed (Some ''/etc'') world_sample)))"
  by code_simp

text \<open>
  Claim C4. Without a path argument \<open>list_files\<close> should enumerate the allowed root, as the
  parameter's own description says (\<^verbatim>\<open>defaults to allowed directory\<close>). The default is
  the string \<^verbatim>\<open>.\<close>, resolved against the working directory: in a process started in
  \<^verbatim>\<open>/srv/app\<close> with root \<^verbatim>\<open>/allowed\<close> the call is refused and nothing is listed, while
  listing \<^verbatim>\<open>/allowed\<close> itself shows its three entries.
\<close>

theorem list_files_default_is_working_directory:
  "list_files env_allowed None world_sample =
     (failure (debugInfo env_allowed ''.'' @ [nl, nl] @
        ''Error listing directory .: Access denied: Path . is outside allowed directory''),
      world_sample)
   \<and> list_files env_allowed None world_sample = list_files env_allowed (Some ''.'') world_sample
   \<and> fst (list_files env_allowed (Some ''/allowed'') world_sample) =
       success (debugInfo env_allowed ''/allowed'' @ [nl, nl] @
         ''Contents of /allowed (resolved to /allowed):'' @ [nl, nl] @
         page_sign @ '' notes.txt'' @ [nl] @ folder_sign @ '' docs'' @ [nl] @
         page_sign @ '' latest'')"
  by code_simp

section \<open>Writing and reading\<close>

text \<open>
  Claim C5. The directories that \<open>write_file\<close> creates on the way to the target should
  lie inside the allowed root. A successful call makes \<open>mkdir\<close> on the parent of the
  validated path and then \<open>writeFile\<close>, in this order (\<open>write_file_calls_in_order\<close>). But
  validation accepts \<^verbatim>\<open>/allowed-evil/sub/f.txt\<close> under root \<^verbatim>\<open>/allowed\<close>, and the
  directories \<^verbatim>\<open>/allowed-evil\<close> and \<^verbatim>\<open>/allowed-evil/sub\<close>, absent before, are created beside
  the root.
\<close>

theorem write_file_creates_directories_beside_root:
  "lookup (fs world_sample) [''allowed-evil''] = Inl ENOENT
   \<and> fst (write_file env_allowed ''/allowed-evil/sub/f.txt'' ''c'' world_sample) =
       success ''Successfully wrote to file: /allowed-evil/sub/f.txt''
   \<and> calls (snd (write_file env_allowed ''/allowed-evil/sub/f.txt'' ''c'' world_sample)) =
       [Mkdir ''/allowed-evil/sub'', WriteFile ''/allowed-evil/sub/f.txt'' ''c'']
   \<and> lookup (fs (snd (write_file env_allowed ''/allowed-evil/sub/f.txt'' ''c'' world_sample)))
        [''allowed-evil'', ''sub''] = Inr (Dir [(''f.txt'', File ''c'')])
   \<and> \<not> spec_within_root (resolve (cwd env_allowed) (ALLOWED_DIRECTORY env_allowed))
          ''/allowed-evil/sub''"
  by code_simp







section \<open>Results\<close>

text \<open>
  Claim C8. Each of the three tools answers every call with a result of one text item that
  is either a success (flag clear) or a failure (flag set); the flag is set exactly when
  the \<^verbatim>\<open>try\<close> block threw, so nothing thrown leaves the handler. In particular, reading
  a path that validation accepts and that does not exist gives a failure whose text
  contains the path as requested.
\<close>

theorem tools_answer_with_flagged_result:
  "((\<exists>t. fst (read_file e p w) = success t) \<or> (\<exists>t. fst (read_file e p w) = failure t))
   \<and> (isError (fst (read_file e p w)) \<longleftrightarrow> (\<exists>err. fst (read_file_try e p w) = Inl err))
   \<and> ((\<exists>t. fst (write_file e p c w) = success t) \<or> (\<exists>t. fst (write_file e p c w) = failure t))
   \<and> (isError (fst (write_file e p c w)) \<longleftrightarrow> (\<exists>err. fst (write_file_try e p c w) = Inl err))
   \<and> ((\<exists>t. fst (list_files e arg w) = success t) \<or> (\<exists>t. fst (list_files e arg w) = failure t))
   \<and> (isError (fst (list_files e arg w)) \<longleftrightarrow> (\<exists>err. fst (list_files_try e arg w) = Inl err))
   \<and> (validatePath e p = Inr v \<and> lookup (fs w) (path_names v) = Inl ENOENT \<longrightarrow>
        fst (read_file e p w) =
          failure (''Error reading file '' @ p @ '': '' @
            ''ENOENT: no such file or directory, open '' @ [CHR 0x27] @ v @ [CHR 0x27])
        \<and> sublist p (result_text (fst (read_file e p w))))"
proof -
  have r1: "(\<exists>t. fst (read_file e p w) = success t) \<or> (\<exists>t. fst (read_file e p w) = failure t)"
    by (auto simp: read_file_def read_file_try_def split: sum.splits prod.splits)
  have r2: "isError (fst (read_file e p w)) \<longleftrightarrow> (\<exists>err. fst (read_file_try e p w) = Inl err)"
    by (auto simp: read_file_def read_file_try_def split: sum.splits prod.splits)
  have w1: "(\<exists>t. fst (write_file e p c w) = success t) \<or> (\<exists>t. fst (write_file e p c w) = failure t)"
    by (auto simp: write_file_def write_file_try_def Let_def split: sum.splits prod.splits)
  have w2: "isError (fst (write_file e p c w)) \<longleftrightarrow> (\<exists>err. fst (write_file_try e p c w) = Inl err)"
    by (auto simp: write_file_def write_file_try_def Let_def split: sum.splits prod.splits)
  have l1: "(\<exists>t. fst (list_files e arg w) = success t) \<or> (\<exists>t. fst (list_files e arg w) = failure t)"
    by (auto simp: list_files_def list_files_try_def Let_def split: sum.splits prod.splits)
  have l2: "isError (fst (list_files e arg w)) \<longleftrightarrow> (\<exists>err. fst (list_files_try e arg w) = Inl err)"
    by (auto simp: list_files_def list_files_try_def Let_def split: sum.splits prod.splits)
  have missing: "fst (read_file e p w) =
          failure (''Error reading file '' @ p @ '': '' @
            ''ENOENT: no such file or directory, open '' @ [CHR 0x27] @ v @ [CHR 0x27])
        \<and> sublist p (result_text (fst (read_file e p w)))"
    if "validatePath e p = Inr v" and "lookup (fs w) (path_names v) = Inl ENOENT"
  proof -
    have shape: "fst (read_file e p w) =
          failure (''Error reading file '' @ p @ '': '' @
            ''ENOENT: no such file or directory, open '' @ [CHR 0x27] @ v @ [CHR 0x27])"
      using that by (simp add: read_file_def read_file_try_def readFile_def fs_error_def)
    from sublist_result_text_failure [of p "''Error reading file ''"] show ?thesis
      unfolding shape by simp
  qed
  show ?thesis
    using r1 r2 w1 w2 l1 l2 missing by blast
qed

theorem tools_answer_with_flagged_result_witness:
  "validatePath env_allowed ''/allowed/missing.txt'' = Inr ''/allowed/missing.txt''
   \<and> lookup (fs world_sample) (path_names ''/allowed/missing.txt'') = Inl ENOENT
   \<and> isError (fst (read_file env_allowed ''/allowed/missing.txt'' world_sample))
   \<and> sublist ''/allowed/missing.txt''
        (result_text (fst (read_file env_allowed ''/allowed/missing.txt'' world_sample)))"
proof -
  have accepted: "validatePath env_allowed ''/allowed/missing.txt'' = Inr ''/allowed/missing.txt''"
    by code_simp
  have absent: "lookup (fs world_sample) (path_names ''/allowed/missing.txt'') = Inl ENOENT"
    by code_simp
  from tools_answer_with_flagged_result
      [of env_allowed "''/allowed/missing.txt''" world_sample "[]" None "''/allowed/missing.txt''"]
  have "validatePath env_allowed ''/allowed/missing.txt'' = Inr ''/allowed/missing.txt''
      \<and> lookup (fs world_sample) (path_names ''/allowed/missing.txt'') = Inl ENOENT \<longrightarrow>
    fst (read_file env_allowed ''/allowed/missing.txt'' world_sample) =
      failure (''Error reading file '' @ ''/allowed/missing.txt'' @ '': '' @
        ''ENOENT: no such file or directory, open '' @ [CHR 0x27] @ ''/allowed/missing.txt'' @
        [CHR 0x27])
    \<and> sublist ''/allowed/missing.txt''
        (result_text (fst (read_file env_allowed ''/allowed/missing.txt'' world_sample)))"
    by blast
  with accepted absent
  have shape: "fst (read_file env_allowed ''/allowed/missing.txt'' world_sample) =
      failure (''Error reading file '' @ ''/allowed/missing.txt'' @ '': '' @
        ''ENOENT: no such file or directory, open '' @ [CHR 0x27] @ ''/allowed/missing.txt'' @
        [CHR 0x27])"
    and inside: "sublist ''/allowed/missing.txt''
        (result_text (fst (read_file env_allowed ''/allowed/missing.txt'' world_sample)))"
    by blast+
  have "isError (fst (read_file env_allowed ''/allowed/missing.txt'' world_sample))"
    unfolding shape by (simp add: failure_def)
  with accepted absent inside show ?thesis
    by blast
qed

text \<open>
  Claim C9. A relative candidate is resolved against the working directory
  (\<open>relative_candidate_resolved_against_cwd\<close>), so the decision changes with it
  (\<open>validation_depends_on_cwd\<close>); it should be accepted only when that resolution lies
  inside the allowed root. In a process whose working directory is \<^verbatim>\<open>/allowed-evil\<close>, with
  root \<^verbatim>\<open>/allowed\<close>, the candidate \<^verbatim>\<open>x\<close> resolves to \<^verbatim>\<open>/allowed-evil/x\<close>, outside the
  root, and is accepted.
\<close>

theorem validatePath_accepts_relative_beside_root:
  "validatePath (env_allowed\<lparr>cwd := ''/allowed-evil''\<rparr>) ''x'' = Inr ''/allowed-evil/x''
   \<and> \<not> spec_within_root
          (resolve ''/allowed-evil'' (ALLOWED_DIRECTORY env_allowed))
          (resolve ''/allowed-evil'' ''x'')"
  by code_simp

text \<open>
  Claim C10. When \<open>list_files\<close> succeeds, its listing has one line per entry returned by
  \<open>readdir\<close>, in that order; an entry is labelled a directory exactly when its own dirent
  type is \<open>Directory\<close>, and every other type (regular file, symbolic link, socket, ...)
  is labelled a file. The dirent type is that of the entry itself: a symbolic link is
  reported as a link, whatever it points to.
\<close>

theorem list_files_labels_by_dirent_type:
  assumes "validatePath e (defaulted arg) = Inr v"
    and "readdir v w = (Inr items, w')"
  shows "fst (list_files e arg w) =
      success (debugInfo e (defaulted arg) @ [nl, nl] @
        ''Contents of '' @ defaulted arg @ '' (resolved to '' @ v @ ''):'' @ [nl, nl] @
        join [nl] (map (\<lambda>item. (if dtype item = Directory then folder_sign else page_sign) @
                               '' '' @ name item) items))
    \<and> fileList items =
        map (\<lambda>item. (name item, if dtype item = Directory then ''directory'' else ''file'')) items
    \<and> (\<exists>entries. lookup (fs w) (path_names v) = Inr (Dir entries)
          \<and> items = map (\<lambda>(k, n). \<lparr>name = k, dtype = node_type n\<rparr>) entries)"
proof -
  have labels: "fileList items =
      map (\<lambda>item. (name item, if dtype item = Directory then ''directory'' else ''file'')) items"
    by (simp add: fileList_def isDirectory_def)
  have lines: "map (\<lambda>(item_name, item_type).
               (if item_type = ''directory'' then folder_sign else page_sign) @ '' '' @ item_name)
          (fileList items) =
        map (\<lambda>item. (if dtype item = Directory then folder_sign else page_sign) @
                               '' '' @ name item) items"
    by (simp add: labels)
  have shown: "fst (list_files e arg w) =
      success (debugInfo e (defaulted arg) @ [nl, nl] @
        ''Contents of '' @ defaulted arg @ '' (resolved to '' @ v @ ''):'' @ [nl, nl] @
        formattedList (fileList items))"
    using assms by (simp add: list_files_unfold)
  have source: "\<exists>entries. lookup (fs w) (path_names v) = Inr (Dir entries)
          \<and> items = map (\<lambda>(k, n). \<lparr>name = k, dtype = node_type n\<rparr>) entries"
    using assms(2) by (auto simp: readdir_def split: sum.splits node.splits)
  show ?thesis
    using labels source unfolding shown formattedList_def lines by simp
qed

theorem list_files_labels_by_dirent_type_witness:
  "validatePath env_allowed (defaulted (Some ''/allowed'')) = Inr ''/allowed''
   \<and> readdir ''/allowed'' world_sample =
       (Inr [\<lparr>name = ''notes.txt'', dtype = RegularFile\<rparr>,
             \<lparr>name = ''docs'', dtype = Directory\<rparr>,
             \<lparr>name = ''latest'', dtype = SymbolicLink\<rparr>],
        logged (Readdir ''/allowed'') world_sample)
   \<and> fileList [\<lparr>name = ''notes.txt'', dtype = RegularFile\<rparr>,
                \<lparr>name = ''docs'', dtype = Directory\<rparr>,
                \<lparr>name = ''latest'', dtype = SymbolicLink\<rparr>] =
       [(''notes.txt'', ''file''), (''docs'', ''directory''), (''latest'', ''file'')]
   \<and> fst (list_files env_allowed (Some ''/allowed'') world_sample) =
       success (debugInfo env_allowed ''/allowed'' @ [nl, nl] @
         ''Contents of /allowed (resolved to /allowed):'' @ [nl, nl] @
         page_sign @ '' notes.txt'' @ [nl] @ folder_sign @ '' docs'' @ [nl] @
         page_sign @ '' latest'')"
proof -
  have accepted: "validatePath env_allowed (defaulted (Some ''/allowed'')) = Inr ''/allowed''"
    by code_simp
  have listed: "readdir ''/allowed'' world_sample =
       (Inr [\<lparr>name = ''notes.txt'', dtype = RegularFile\<rparr>,
             \<lparr>name = ''docs'', dtype = Directory\<rparr>,
             \<lparr>name = ''latest'', dtype = SymbolicLink\<rparr>],
        logged (Readdir ''/allowed'') world_sample)"
    by code_simp
  have plain: "validatePath env_allowed ''/allowed'' = Inr ''/allowed''"
    by code_simp
  show ?thesis
    using list_files_labels_by_dirent_type [OF accepted listed]
    by (simp add: plain listed defaulted_def)
qed

end
